theory Spec2Isabelle
  imports Main "HOL-Library.AList"
begin

section \<open>The tackle migration tool (hack/tool/tackle)\<close>

text \<open>
  A shallow embedding of the Python script \<^verbatim>\<open>hack/tool/tackle\<close>: the class
  \<^verbatim>\<open>Tackle12Import\<close>, the helper functions it calls and the three actions of the
  script. Python objects live in an explicit store, because the script mutates objects
  after it has put them into several collections. Exceptions and \<^verbatim>\<open>exit(1)\<close> are
  values of the type \<open>failure\<close>.
\<close>

subsection \<open>Values\<close>

text \<open>
  What \<^verbatim>\<open>json.loads\<close> returns. Numbers are integers. Python's booleans are the
  integers 0 and 1 for every operation the script applies to them (comparison, truth
  value, hashing, \<^verbatim>\<open>int()\<close>), and are represented as such. \<open>JNull\<close> is \<^verbatim>\<open>None\<close>.
  A dictionary keeps its keys in insertion order.
\<close>

datatype json =
    JNull
  | JInt int
  | JStr string
  | JList "json list"
  | JDict "(string \<times> json) list"

text \<open>
  The value of an attribute of a \<^verbatim>\<open>Tackle2Object\<close>: a value copied from a payload
  (or a dictionary built from such values), a reference to another object, or a list
  of references. The script assigns nothing else.
\<close>

datatype aval =
    AJson json
  | ARef nat
  | ARefs "nat list"

datatype failure =
    KeyError string
  | TypeError
  | AttributeError string
  | ValueError
  | JSONDecodeError
  | EncodeError
  | FileNotFound string
  | ApiFailed int string
  | RecordNotFound string int
  | ResourceExists string json json json

definition ebind :: "failure + 'a \<Rightarrow> ('a \<Rightarrow> failure + 'b) \<Rightarrow> failure + 'b" where
  "ebind m f = (case m of Inl e \<Rightarrow> Inl e | Inr x \<Rightarrow> f x)"

text \<open>A \<^verbatim>\<open>for\<close> loop whose body may raise: the first failure ends the loop.\<close>

fun for_each :: "('a \<Rightarrow> 's \<Rightarrow> failure + 's) \<Rightarrow> 'a list \<Rightarrow> 's \<Rightarrow> failure + 's" where
  "for_each f [] s = Inr s"
| "for_each f (x # xs) s = (case f x s of Inl e \<Rightarrow> Inl e | Inr s' \<Rightarrow> for_each f xs s')"

text \<open>Truth value of a payload value, as \<^verbatim>\<open>if v:\<close> tests it.\<close>

fun truthy :: "json \<Rightarrow> bool" where
  "truthy JNull = False"
| "truthy (JInt i) = (i \<noteq> 0)"
| "truthy (JStr s) = (s \<noteq> [])"
| "truthy (JList xs) = (xs \<noteq> [])"
| "truthy (JDict kvs) = (kvs \<noteq> [])"

text \<open>\<^verbatim>\<open>v[k]\<close> with a string key: only a dictionary accepts it.\<close>

fun subscript :: "json \<Rightarrow> string \<Rightarrow> failure + json" where
  "subscript (JDict kvs) k = (case map_of kvs k of None \<Rightarrow> Inl (KeyError k) | Some v \<Rightarrow> Inr v)"
| "subscript _ k = Inl TypeError"

text \<open>
  \<^verbatim>\<open>obj[k]\<close> on a \<^verbatim>\<open>Tackle2Object\<close>: the class defines no \<^verbatim>\<open>__getitem__\<close>, so
  Python raises TypeError ("object is not subscriptable") whatever the key.
\<close>

definition object_subscript :: "nat \<Rightarrow> string \<Rightarrow> failure + json" where
  "object_subscript a k = Inl TypeError"

text \<open>\<^verbatim>\<open>for x in v\<close>: what iterating a payload value yields.\<close>

fun iterate :: "json \<Rightarrow> failure + json list" where
  "iterate (JList xs) = Inr xs"
| "iterate (JDict kvs) = Inr (map (\<lambda>kv. JStr (fst kv)) kvs)"
| "iterate (JStr s) = Inr (map (\<lambda>c. JStr [c]) s)"
| "iterate _ = Inl TypeError"

text \<open>\<^verbatim>\<open>needle in s\<close> on strings: substring test.\<close>

fun starts_with :: "string \<Rightarrow> string \<Rightarrow> bool" where
  "starts_with [] s = True"
| "starts_with (p # ps) [] = False"
| "starts_with (p # ps) (c # cs) = (p = c \<and> starts_with ps cs)"

fun contains_str :: "string \<Rightarrow> string \<Rightarrow> bool" where
  "contains_str needle [] = (needle = [])"
| "contains_str needle (c # cs) = (starts_with needle (c # cs) \<or> contains_str needle cs)"

text \<open>\<^verbatim>\<open>'key' in v\<close> for a payload value \<open>v\<close>.\<close>

fun contains_key :: "string \<Rightarrow> json \<Rightarrow> failure + bool" where
  "contains_key k (JDict kvs) = Inr (k \<in> fst ` set kvs)"
| "contains_key k (JList xs) = Inr (JStr k \<in> set xs)"
| "contains_key k (JStr s) = Inr (contains_str k s)"
| "contains_key k _ = Inl TypeError"

text \<open>
  \<^verbatim>\<open>int(v)\<close>. A string is accepted in the form: optional surrounding white space, an
  optional sign, decimal digits with single underscores allowed between digits
  (7-bit ASCII).
\<close>

definition is_space :: "char \<Rightarrow> bool" where
  "is_space c = (c \<in> set [CHR '' '', CHR 0x09, CHR 0x0A, CHR 0x0B, CHR 0x0C, CHR 0x0D])"

definition is_digit :: "char \<Rightarrow> bool" where
  "is_digit c = (c \<in> set ''0123456789'')"

definition digit_val :: "char \<Rightarrow> int" where
  "digit_val c = int (of_char c) - 48"

definition strip :: "string \<Rightarrow> string" where
  "strip s = rev (dropWhile is_space (rev (dropWhile is_space s)))"

fun digits_ok :: "string \<Rightarrow> bool" where
  "digits_ok [] = False"
| "digits_ok [c] = is_digit c"
| "digits_ok (c # d # cs) =
     (is_digit c \<and> (if d = CHR ''_'' then cs \<noteq> [] \<and> digits_ok cs else digits_ok (d # cs)))"

definition digits_value :: "string \<Rightarrow> int" where
  "digits_value s = foldl (\<lambda>n c. 10 * n + digit_val c) 0 (filter is_digit s)"

definition int_of_str :: "string \<Rightarrow> failure + int" where
  "int_of_str s =
     (case strip s of
        [] \<Rightarrow> Inl ValueError
      | c # cs \<Rightarrow>
          if c = CHR ''-'' then (if digits_ok cs then Inr (- digits_value cs) else Inl ValueError)
          else if c = CHR ''+'' then (if digits_ok cs then Inr (digits_value cs) else Inl ValueError)
          else if digits_ok (c # cs) then Inr (digits_value (c # cs)) else Inl ValueError)"

fun py_int :: "json \<Rightarrow> failure + int" where
  "py_int (JInt i) = Inr i"
| "py_int (JStr s) = int_of_str s"
| "py_int _ = Inl TypeError"

text \<open>\<^verbatim>\<open>"%d" % v\<close>: the decimal text of an integer; anything else raises TypeError.\<close>

function nat_digits :: "nat \<Rightarrow> string" where
  "nat_digits n =
     (if n < 10 then [char_of (48 + n)] else nat_digits (n div 10) @ [char_of (48 + n mod 10)])"
  by pat_completeness auto

termination
  by (relation "measure id") auto

definition int_text :: "int \<Rightarrow> string" where
  "int_text i = (if i < 0 then CHR ''-'' # nat_digits (nat (- i)) else nat_digits (nat i))"

fun format_d :: "aval \<Rightarrow> failure + string" where
  "format_d (AJson (JInt i)) = Inr (int_text i)"
| "format_d _ = Inl TypeError"

subsection \<open>Objects and the state of a \<^verbatim>\<open>Tackle12Import\<close>\<close>

text \<open>
  An object is the list of its attributes in the order of first assignment (the order
  of \<^verbatim>\<open>vars(obj)\<close>); the store maps an address to an object. \<open>data\<close> is
  \<^verbatim>\<open>self.data\<close>: every key the script uses is created empty by \<^verbatim>\<open>__init__\<close>.
  \<open>destData\<close> is \<^verbatim>\<open>self.destData\<close>, one dictionary from name to object per type.
\<close>

type_synonym obj = "(string \<times> aval) list"

record state =
  heap :: "obj list"
  data :: "string \<Rightarrow> nat list"
  destData :: "string \<Rightarrow> json \<rightharpoonup> nat"

definition TYPES :: "string list" where
  "TYPES = [''tags'', ''tagtypes'', ''jobfunctions'', ''stakeholdergroups'', ''stakeholders'',
            ''businessservices'', ''applications'', ''proxies'', ''dependencies'', ''assessments'',
            ''assessments--assessment-risk'', ''assessments--confidence'', ''reviews'',
            ''identities'']"

definition TACKLE2_SEED_TYPES :: "string list" where
  "TACKLE2_SEED_TYPES = [''tags'', ''tagtypes'', ''jobfunctions'']"

definition init_state :: state where
  "init_state = \<lparr>heap = [], data = (\<lambda>t. []), destData = (\<lambda>t. Map.empty)\<rparr>"

definition alloc :: "obj \<Rightarrow> state \<Rightarrow> nat \<times> state" where
  "alloc ob s = (length (heap s), s\<lparr>heap := heap s @ [ob]\<rparr>)"

definition hasattr :: "state \<Rightarrow> nat \<Rightarrow> string \<Rightarrow> bool" where
  "hasattr s a k = (map_of (heap s ! a) k \<noteq> None)"

definition getattr :: "state \<Rightarrow> nat \<Rightarrow> string \<Rightarrow> failure + aval" where
  "getattr s a k = (case map_of (heap s ! a) k of None \<Rightarrow> Inl (AttributeError k) | Some v \<Rightarrow> Inr v)"

definition setattr :: "nat \<Rightarrow> string \<Rightarrow> aval \<Rightarrow> state \<Rightarrow> state" where
  "setattr a k v s = s\<lparr>heap := (heap s)[a := AList.update k v (heap s ! a)]\<rparr>"

text \<open>
  \<^verbatim>\<open>Tackle2Object(initAttrs)\<close> (lines 418-423): a truthy argument supplies the
  three common attributes; with no argument (the default \<^verbatim>\<open>{}\<close>) the object starts
  without attributes.
\<close>

definition Tackle2Object :: "json \<Rightarrow> state \<Rightarrow> failure + nat \<times> state" where
  "Tackle2Object initAttrs s =
     (if truthy initAttrs then
        ebind (subscript initAttrs ''id'') (\<lambda>i.
        ebind (subscript initAttrs ''createUser'') (\<lambda>cu.
        ebind (subscript initAttrs ''updateUser'') (\<lambda>uu.
          Inr (alloc [(''id'', AJson i), (''createUser'', AJson cu), (''updateUser'', AJson uu)] s))))
      else Inr (alloc [] s))"

text \<open>
  The loop of \<^verbatim>\<open>add\<close> (lines 369-372): \<open>True\<close> when it returns early. \<^verbatim>\<open>item.id\<close>
  is read only when \<^verbatim>\<open>hasattr(item, 'id')\<close> holds; \<^verbatim>\<open>existingItem.id\<close> raises
  AttributeError when the existing item has no such attribute. Identifiers are
  compared as values.
\<close>

fun add_present :: "state \<Rightarrow> nat \<Rightarrow> nat list \<Rightarrow> failure + bool" where
  "add_present s item [] = Inr False"
| "add_present s item (existingItem # rest) =
     (if hasattr s item ''id'' then
        ebind (getattr s item ''id'') (\<lambda>i.
        ebind (getattr s existingItem ''id'') (\<lambda>j.
          if i = j then Inr True else add_present s item rest))
      else add_present s item rest)"

definition add :: "string \<Rightarrow> nat \<Rightarrow> state \<Rightarrow> failure + state" where
  "add type item s =
     ebind (add_present s item (data s type)) (\<lambda>present.
       if present then Inr s
       else Inr (s\<lparr>data := (data s)(type := data s type @ [item])\<rparr>))"

text \<open>\<^verbatim>\<open>findById\<close> (lines 162-169).\<close>

fun find_in :: "state \<Rightarrow> int \<Rightarrow> nat list \<Rightarrow> failure + nat option" where
  "find_in s i [] = Inr None"
| "find_in s i (ob # rest) =
     ebind (getattr s ob ''id'') (\<lambda>j.
       if j = AJson (JInt i) then Inr (Some ob) else find_in s i rest)"

definition findById :: "state \<Rightarrow> string \<Rightarrow> int \<Rightarrow> failure + nat" where
  "findById s objType i =
     ebind (find_in s i (data s objType)) (\<lambda>r.
       case r of Some ob \<Rightarrow> Inr ob | None \<Rightarrow> Inl (RecordNotFound objType i))"

text \<open>
  \<^verbatim>\<open>name in d\<close> and \<^verbatim>\<open>d[name]\<close> for one of the dictionaries of \<^verbatim>\<open>destData\<close>,
  where \<^verbatim>\<open>name\<close> is the value of an attribute. Lists and dictionaries are not
  hashable. An object is hashable by identity and is never a key.
\<close>

fun hashable :: "json \<Rightarrow> bool" where
  "hashable (JList xs) = False"
| "hashable (JDict kvs) = False"
| "hashable _ = True"

fun dict_has :: "(json \<rightharpoonup> nat) \<Rightarrow> aval \<Rightarrow> failure + bool" where
  "dict_has d (AJson j) = (if hashable j then Inr (d j \<noteq> None) else Inl TypeError)"
| "dict_has d (ARef a) = Inr False"
| "dict_has d (ARefs as) = Inl TypeError"

fun dict_get :: "(json \<rightharpoonup> nat) \<Rightarrow> aval \<Rightarrow> failure + nat" where
  "dict_get d (AJson j) =
     (if hashable j then (case d j of None \<Rightarrow> Inl (KeyError []) | Some a \<Rightarrow> Inr a)
      else Inl TypeError)"
| "dict_get d (ARef a) = Inl (KeyError [])"
| "dict_get d (ARefs as) = Inl TypeError"

subsection \<open>Requests and responses\<close>

text \<open>
  A request as \<^verbatim>\<open>apiJSON\<close> sends it (lines 69-76): DELETE and GET carry no body.
  A response is what the script reads of it: \<^verbatim>\<open>r.ok\<close>, \<^verbatim>\<open>r.status_code\<close> and
  \<^verbatim>\<open>r.text\<close>, which is empty, a JSON document, or text that \<^verbatim>\<open>json.loads\<close> rejects.
\<close>

datatype request = Get string | Post string json | Delete string

datatype body = NoText | JsonText json | OtherText

record response =
  resp_ok :: bool
  resp_status :: int
  resp_text :: body

definition send :: "string \<Rightarrow> string \<Rightarrow> json \<Rightarrow> request" where
  "send method url dat =
     (if method = ''DELETE'' then Delete url
      else if method = ''POST'' then Post url dat
      else Get url)"

text \<open>\<^verbatim>\<open>url.rsplit('/')[-1]\<close>\<close>

definition last_segment :: "string \<Rightarrow> string" where
  "last_segment url = rev (takeWhile (\<lambda>c. c \<noteq> CHR ''/'') (rev url))"

text \<open>
  What \<^verbatim>\<open>apiJSON\<close> does with the response (lines 78-95). With \<^verbatim>\<open>ignoreErrors\<close>
  a failed status is only logged, and the text of the response is decoded all the same.
\<close>

definition api_result :: "string \<Rightarrow> response \<Rightarrow> bool \<Rightarrow> failure + json" where
  "api_result url r ignoreErrors =
     (if \<not> resp_ok r \<and> \<not> ignoreErrors then Inl (ApiFailed (resp_status r) url)
      else case resp_text r of
             NoText \<Rightarrow> Inr JNull
           | OtherText \<Rightarrow> Inl JSONDecodeError
           | JsonText respData \<Rightarrow>
               ebind (contains_key ''_embedded'' respData) (\<lambda>embedded.
                 if embedded then
                   ebind (subscript respData ''_embedded'') (\<lambda>e. subscript e (last_segment url))
                 else Inr respData))"

text \<open>
  The export only reads from the two systems, so each of them is a function from the
  request to its response.
\<close>

type_synonym server = "request \<Rightarrow> response"

definition fetch :: "server \<Rightarrow> string \<Rightarrow> json \<Rightarrow> string \<Rightarrow> failure + json" where
  "fetch srv url dat method = api_result url (srv (send method url dat)) False"

record config =
  dataDir :: string
  tackle1Url :: string
  tackle2Url :: string

subsection \<open>\<^verbatim>\<open>loadTackle2Seeds\<close> (lines 141-160)\<close>

definition set_dest :: "string \<Rightarrow> json \<Rightarrow> nat \<Rightarrow> state \<Rightarrow> failure + state" where
  "set_dest type name ob s =
     (if hashable name
      then Inr (s\<lparr>destData := (destData s)(type := (destData s type)(name \<mapsto> ob))\<rparr>)
      else Inl TypeError)"

definition seed_tag :: "json \<Rightarrow> state \<Rightarrow> failure + state" where
  "seed_tag t2 s =
     ebind (Tackle2Object (JDict []) s) (\<lambda>(tag, s).
     ebind (subscript t2 ''id'') (\<lambda>i.
     let s = setattr tag ''id'' (AJson i) s in
     ebind (subscript t2 ''name'') (\<lambda>name.
     let s = setattr tag ''name'' (AJson name) s in
     set_dest ''tags'' name tag s)))"

definition seed_tagtype :: "json \<Rightarrow> state \<Rightarrow> failure + state" where
  "seed_tagtype tt2 s =
     ebind (Tackle2Object tt2 s) (\<lambda>(tt, s).
     ebind (subscript tt2 ''name'') (\<lambda>name.
     let s = setattr tt ''name'' (AJson name) s in
     ebind (set_dest ''tagtypes'' name tt s) (\<lambda>s.
     ebind (subscript tt2 ''tags'') (\<lambda>tags.
       if truthy tags then ebind (iterate tags) (\<lambda>t2s. for_each seed_tag t2s s)
       else Inr s))))"

definition seed_jobfunction :: "json \<Rightarrow> state \<Rightarrow> failure + state" where
  "seed_jobfunction jf2 s =
     ebind (Tackle2Object jf2 s) (\<lambda>(jf, s).
     ebind (subscript jf2 ''name'') (\<lambda>name.
     let s = setattr jf ''name'' (AJson name) s in
     set_dest ''jobfunctions'' name jf s))"

definition loadTackle2Seeds :: "config \<Rightarrow> server \<Rightarrow> state \<Rightarrow> failure + state" where
  "loadTackle2Seeds cfg tackle2 s =
     ebind (fetch tackle2 (tackle2Url cfg @ ''/hub/tagtypes'') JNull ''GET'') (\<lambda>collection.
     ebind (iterate collection) (\<lambda>tt2s.
     ebind (for_each seed_tagtype tt2s s) (\<lambda>s.
     ebind (fetch tackle2 (tackle2Url cfg @ ''/hub/jobfunctions'') JNull ''GET'') (\<lambda>collection.
     ebind (iterate collection) (\<lambda>jf2s.
       for_each seed_jobfunction jf2s s)))))"

subsection \<open>\<^verbatim>\<open>dumpTackle1\<close>: tag types and tags (lines 173-199)\<close>

text \<open>
  One pass of the loop over \<^verbatim>\<open>tt1['tags']\<close>; the second component is the local
  list \<^verbatim>\<open>tags\<close>. Line 185 reads \<^verbatim>\<open>tag.name\<close>, the value assigned on line 181.
\<close>

definition tag_step :: "json \<Rightarrow> state \<times> nat list \<Rightarrow> failure + state \<times> nat list" where
  "tag_step tag1 st =
     (case st of (s, tags) \<Rightarrow>
        ebind (Tackle2Object tag1 s) (\<lambda>(tag, s).
        ebind (subscript tag1 ''name'') (\<lambda>name.
        let s = setattr tag ''name'' (AJson name) s in
        ebind (add ''origin-tags'' tag s) (\<lambda>s.
        ebind (dict_has (destData s ''tags'') (AJson name)) (\<lambda>seeded.
        ebind (if \<not> seeded then add ''tags'' tag s else Inr s) (\<lambda>s.
          Inr (s, tags @ [tag])))))))"

text \<open>
  \<^verbatim>\<open>copy.deepcopy(tt)\<close> on line 195: at that point every attribute of \<^verbatim>\<open>tt\<close> holds a
  payload value, so the copy is a new object with the same attributes.
\<close>

definition deepcopy :: "nat \<Rightarrow> state \<Rightarrow> nat \<times> state" where
  "deepcopy a s = alloc (heap s ! a) s"

definition set_tagType :: "nat \<Rightarrow> nat \<Rightarrow> state \<Rightarrow> state" where
  "set_tagType tt tag s = (case deepcopy tt s of (c, s') \<Rightarrow> setattr tag ''tagType'' (ARef c) s')"

definition tagtype_step :: "json \<Rightarrow> state \<Rightarrow> failure + state" where
  "tagtype_step tt1 s =
     ebind (subscript tt1 ''tags'') (\<lambda>ts.
     ebind (iterate ts) (\<lambda>tag1s.
     ebind (for_each tag_step tag1s (s, [])) (\<lambda>(s, tags).
     ebind (Tackle2Object tt1 s) (\<lambda>(tt, s).
     ebind (subscript tt1 ''name'') (\<lambda>name.
     let s = setattr tt ''name'' (AJson name) s in
     ebind (subscript tt1 ''colour'') (\<lambda>colour.
     let s = setattr tt ''colour'' (AJson colour) s in
     ebind (subscript tt1 ''rank'') (\<lambda>rank.
     let s = setattr tt ''rank'' (AJson rank) s in
     ebind (subscript tt1 ''createUser'') (\<lambda>user.
     let s = setattr tt ''username'' (AJson user) s;
         s = fold (set_tagType tt) tags s;
         s = setattr tt ''tags'' (ARefs tags) s in
     ebind (dict_has (destData s ''tagtypes'') (AJson name)) (\<lambda>seeded.
       if \<not> seeded then add ''tagtypes'' tt s else Inr s)))))))))"

definition dump_tagtypes :: "config \<Rightarrow> server \<Rightarrow> state \<Rightarrow> failure + state" where
  "dump_tagtypes cfg tackle1 s =
     ebind (fetch tackle1 (tackle1Url cfg @ ''/api/controls/tag-type'') JNull ''GET'') (\<lambda>collection.
     ebind (iterate collection) (\<lambda>tt1s. for_each tagtype_step tt1s s))"

subsection \<open>\<^verbatim>\<open>dumpTackle1\<close>: applications and reviews (lines 201-245)\<close>

text \<open>One pass of the loop over \<^verbatim>\<open>app1['tags']\<close> (lines 209-220).\<close>

definition app_tag_step :: "json \<Rightarrow> state \<times> nat list \<Rightarrow> failure + state \<times> nat list" where
  "app_tag_step tagId st =
     (case st of (s, tags) \<Rightarrow>
        ebind (py_int tagId) (\<lambda>i.
        ebind (findById s ''origin-tags'' i) (\<lambda>appTag.
        ebind (getattr s appTag ''name'') (\<lambda>name.
        ebind (dict_has (destData s ''tags'') name) (\<lambda>seeded.
          if seeded then
            ebind (dict_get (destData s ''tags'') name) (\<lambda>d. Inr (s, tags @ [d]))
          else
            ebind (Tackle2Object (JDict []) s) (\<lambda>(tag, s).
            ebind (getattr s appTag ''id'') (\<lambda>i'.
            let s = setattr tag ''id'' i' s in
            ebind (getattr s appTag ''name'') (\<lambda>name'.
            let s = setattr tag ''name'' name' s in
              Inr (s, tags @ [tag])))))))))"

text \<open>
  Lines 231-241. \<^verbatim>\<open>app.id\<close> and \<^verbatim>\<open>app.name\<close> on line 238 are the values the
  constructor and line 223 took from \<^verbatim>\<open>app1\<close>.
\<close>

definition review_step :: "json \<Rightarrow> json \<Rightarrow> state \<Rightarrow> failure + state" where
  "review_step app1 review s =
     ebind (Tackle2Object review s) (\<lambda>(rv, s).
     ebind (subscript review ''proposedAction'') (\<lambda>v.
     let s = setattr rv ''proposedAction'' (AJson v) s in
     ebind (subscript review ''effortEstimate'') (\<lambda>v.
     let s = setattr rv ''effortEstimate'' (AJson v) s in
     ebind (subscript review ''businessCriticality'') (\<lambda>v.
     let s = setattr rv ''businessCriticality'' (AJson v) s in
     ebind (subscript review ''workPriority'') (\<lambda>v.
     let s = setattr rv ''workPriority'' (AJson v) s in
     ebind (subscript review ''comments'') (\<lambda>v.
     let s = setattr rv ''comments'' (AJson v) s in
     ebind (subscript app1 ''id'') (\<lambda>app_id.
     ebind (subscript app1 ''name'') (\<lambda>app_name.
     let s = setattr rv ''application'' (AJson (JDict [(''id'', app_id), (''name'', app_name)])) s in
     ebind (subscript review ''copiedFromReviewId'') (\<lambda>c.
     let s = (if truthy c then setattr rv ''copiedFromReviewId'' (AJson c) s else s) in
       add ''reviews'' rv s)))))))))"

definition int_attr :: "aval \<Rightarrow> failure + int" where
  "int_attr v = (case v of AJson (JInt i) \<Rightarrow> Inr i | _ \<Rightarrow> Inl TypeError)"

definition application_step :: "json \<Rightarrow> state \<Rightarrow> failure + state" where
  "application_step app1 s =
     ebind (subscript app1 ''tags'') (\<lambda>tg.
     ebind (if truthy tg then ebind (iterate tg) (\<lambda>tagIds. for_each app_tag_step tagIds (s, []))
            else Inr (s, [])) (\<lambda>(s, tags).
     ebind (Tackle2Object app1 s) (\<lambda>(app, s).
     ebind (subscript app1 ''name'') (\<lambda>name.
     let s = setattr app ''name'' (AJson name) s in
     ebind (subscript app1 ''description'') (\<lambda>description.
     let s = setattr app ''description'' (AJson description) s;
         s = setattr app ''tags'' (ARefs tags) s in
     ebind (subscript app1 ''businessService'') (\<lambda>bs.
     ebind (if truthy bs then
              ebind (py_int bs) (\<lambda>b.
                Inr (setattr app ''businessService'' (AJson (JDict [(''id'', JInt b)])) s))
            else
              ebind (getattr s app ''id'') (\<lambda>i. ebind (int_attr i) (\<lambda>_. Inr s))) (\<lambda>s.
     ebind (subscript app1 ''review'') (\<lambda>review.
     ebind (if truthy review then review_step app1 review s else Inr s) (\<lambda>s.
       add ''applications'' app s)))))))))"

definition dump_applications :: "config \<Rightarrow> server \<Rightarrow> state \<Rightarrow> failure + state" where
  "dump_applications cfg tackle1 s =
     ebind (fetch tackle1 (tackle1Url cfg @ ''/api/application-inventory/application'') JNull ''GET'')
       (\<lambda>collection.
     ebind (iterate collection) (\<lambda>app1s. for_each application_step app1s s))"

subsection \<open>\<^verbatim>\<open>dumpTackle1\<close>: dependencies (lines 255-262)\<close>

definition dependency_step :: "json \<Rightarrow> state \<Rightarrow> failure + state" where
  "dependency_step dep1 s =
     ebind (Tackle2Object dep1 s) (\<lambda>(dep, s).
     ebind (subscript dep1 ''to'') (\<lambda>t.
     ebind (subscript t ''id'') (\<lambda>to_id.
     ebind (subscript dep1 ''to'') (\<lambda>t.
     ebind (subscript t ''name'') (\<lambda>to_name.
     let s = setattr dep ''to'' (AJson (JDict [(''id'', to_id), (''name'', to_name)])) s in
     ebind (subscript dep1 ''from'') (\<lambda>f.
     ebind (subscript f ''id'') (\<lambda>from_id.
     ebind (subscript dep1 ''from'') (\<lambda>f.
     ebind (subscript f ''name'') (\<lambda>from_name.
     let s = setattr dep ''from'' (AJson (JDict [(''id'', from_id), (''name'', from_name)])) s in
       add ''dependencies'' dep s)))))))))"

definition dump_dependencies :: "config \<Rightarrow> server \<Rightarrow> state \<Rightarrow> failure + state" where
  "dump_dependencies cfg tackle1 s =
     ebind (fetch tackle1
              (tackle1Url cfg @ ''/api/application-inventory/applications-dependency'') JNull ''GET'')
       (\<lambda>collection.
     ebind (iterate collection) (\<lambda>dep1s. for_each dependency_step dep1s s))"

subsection \<open>\<^verbatim>\<open>dumpTackle1\<close>: assessments, risks and confidence (lines 264-291)\<close>

definition assessment_step :: "json \<Rightarrow> state \<Rightarrow> failure + state" where
  "assessment_step assm1 s =
     ebind (Tackle2Object (JDict []) s) (\<lambda>(assm, s).
     ebind (subscript assm1 ''id'') (\<lambda>v.
     let s = setattr assm ''id'' (AJson v) s in
     ebind (subscript assm1 ''applicationId'') (\<lambda>v.
     let s = setattr assm ''applicationId'' (AJson v) s in
     ebind (subscript assm1 ''status'') (\<lambda>v.
     let s = setattr assm ''status'' (AJson v) s in
       add ''assessments'' assm s))))"

definition risk_step :: "json \<Rightarrow> state \<Rightarrow> failure + state" where
  "risk_step assmr1 s =
     ebind (Tackle2Object (JDict []) s) (\<lambda>(assmr, s).
     ebind (subscript assmr1 ''assessmentId'') (\<lambda>v.
     let s = setattr assmr ''assessmentId'' (AJson v) s in
     ebind (subscript assmr1 ''applicationId'') (\<lambda>v.
     let s = setattr assmr ''applicationId'' (AJson v) s in
     ebind (subscript assmr1 ''risk'') (\<lambda>v.
     let s = setattr assmr ''risk'' (AJson v) s in
       add ''assessments--assessment-risk'' assmr s))))"

definition confidence_step :: "json \<Rightarrow> state \<Rightarrow> failure + state" where
  "confidence_step conf1 s =
     ebind (Tackle2Object (JDict []) s) (\<lambda>(conf, s).
     ebind (subscript conf1 ''assessmentId'') (\<lambda>v.
     let s = setattr conf ''assessmentId'' (AJson v) s in
     ebind (subscript conf1 ''applicationId'') (\<lambda>v.
     let s = setattr conf ''applicationId'' (AJson v) s in
     ebind (subscript conf1 ''confidence'') (\<lambda>v.
     let s = setattr conf ''confidence'' (AJson v) s in
       add ''assessments--confidence'' conf s))))"

text \<open>One pass of the loop over \<^verbatim>\<open>self.data['applications']\<close> (lines 265-291).\<close>

definition app_assessments_step :: "config \<Rightarrow> server \<Rightarrow> nat \<Rightarrow> state \<Rightarrow> failure + state" where
  "app_assessments_step cfg tackle1 app s =
     ebind (getattr s app ''id'') (\<lambda>v.
     ebind (int_attr v) (\<lambda>i.
     ebind (fetch tackle1
              (tackle1Url cfg @ ''/api/pathfinder/assessments?applicationId='' @ int_text i)
              JNull ''GET'') (\<lambda>collection.
     ebind (iterate collection) (\<lambda>assm1s.
     ebind (for_each assessment_step assm1s s) (\<lambda>s.
     ebind (getattr s app ''id'') (\<lambda>v.
     ebind (case v of AJson j \<Rightarrow> Inr j | _ \<Rightarrow> Inl EncodeError) (\<lambda>j.
     ebind (fetch tackle1 (tackle1Url cfg @ ''/api/pathfinder/assessments/assessment-risk'')
              (JList [JDict [(''applicationId'', j)]]) ''POST'') (\<lambda>collection.
     ebind (iterate collection) (\<lambda>assmr1s.
     ebind (for_each risk_step assmr1s s) (\<lambda>s.
     ebind (getattr s app ''id'') (\<lambda>v.
     ebind (case v of AJson j \<Rightarrow> Inr j | _ \<Rightarrow> Inl EncodeError) (\<lambda>j.
     ebind (fetch tackle1 (tackle1Url cfg @ ''/api/pathfinder/assessments/confidence'')
              (JList [JDict [(''applicationId'', j)]]) ''POST'') (\<lambda>collection.
     ebind (iterate collection) (\<lambda>conf1s.
       for_each confidence_step conf1s s))))))))))))))"

definition dump_assessments :: "config \<Rightarrow> server \<Rightarrow> state \<Rightarrow> failure + state" where
  "dump_assessments cfg tackle1 s =
     for_each (app_assessments_step cfg tackle1) (data s ''applications'') s"

subsection \<open>\<^verbatim>\<open>dumpTackle1\<close>: stakeholders, groups, job functions, business services (lines 301-366)\<close>

definition nested_group_step :: "json \<Rightarrow> state \<times> nat list \<Rightarrow> failure + state \<times> nat list" where
  "nested_group_step shg1 st =
     (case st of (s, shgs) \<Rightarrow>
        ebind (Tackle2Object shg1 s) (\<lambda>(shg, s).
        ebind (subscript shg1 ''name'') (\<lambda>v.
        let s = setattr shg ''name'' (AJson v) s in
        ebind (subscript shg1 ''description'') (\<lambda>v.
        let s = setattr shg ''description'' (AJson v) s in
        ebind (add ''stakeholdergroups'' shg s) (\<lambda>s.
          Inr (s, shgs @ [shg]))))))"

text \<open>
  Lines 318-327 subscript \<^verbatim>\<open>sh\<close>, the \<^verbatim>\<open>Tackle2Object\<close> built on line 314, where
  lines 318-319 subscript the payload \<^verbatim>\<open>sh1\<close>.
\<close>

definition stakeholder_step :: "json \<Rightarrow> state \<Rightarrow> failure + state" where
  "stakeholder_step sh1 s =
     ebind (subscript sh1 ''stakeholderGroups'') (\<lambda>gs.
     ebind (iterate gs) (\<lambda>shg1s.
     ebind (for_each nested_group_step shg1s (s, [])) (\<lambda>(s, shgs).
     ebind (Tackle2Object sh1 s) (\<lambda>(sh, s).
     ebind (subscript sh1 ''displayName'') (\<lambda>v.
     let s = setattr sh ''name'' (AJson v) s in
     ebind (subscript sh1 ''email'') (\<lambda>v.
     let s = setattr sh ''email'' (AJson v) s;
         s = setattr sh ''groups'' (ARefs shgs) s in
     ebind (subscript sh1 ''jobFunction'') (\<lambda>jf1.
     ebind (if truthy jf1 then
              ebind (subscript jf1 ''name'') (\<lambda>name.
              ebind (dict_has (destData s ''jobfunctions'') (AJson name)) (\<lambda>seeded.
                if seeded then
                  ebind (object_subscript sh ''jobFunction'') (\<lambda>j.
                  ebind (subscript j ''name'') (\<lambda>key.
                  ebind (dict_get (destData s ''jobfunctions'') (AJson key)) (\<lambda>d.
                    Inr (setattr sh ''jobFunction'' (ARef d) s))))
                else
                  ebind (object_subscript sh ''jobFunction'') (\<lambda>j.
                  ebind (Tackle2Object j s) (\<lambda>(jf, s).
                  ebind (object_subscript sh ''jobFunction'') (\<lambda>j.
                  ebind (subscript j ''role'') (\<lambda>role.
                  let s = setattr jf ''name'' (AJson role) s in
                  ebind (add ''jobfunctions'' jf s) (\<lambda>s.
                    Inr (setattr sh ''jobFunction'' (ARef jf) s))))))))
            else Inr s) (\<lambda>s.
       add ''stakeholders'' sh s))))))))"

definition dump_stakeholders :: "config \<Rightarrow> server \<Rightarrow> state \<Rightarrow> failure + state" where
  "dump_stakeholders cfg tackle1 s =
     ebind (fetch tackle1 (tackle1Url cfg @ ''/api/controls/stakeholder'') JNull ''GET'') (\<lambda>collection.
     ebind (iterate collection) (\<lambda>sh1s. for_each stakeholder_step sh1s s))"

definition group_step :: "json \<Rightarrow> state \<Rightarrow> failure + state" where
  "group_step shg1 s =
     ebind (Tackle2Object shg1 s) (\<lambda>(shg, s).
     ebind (subscript shg1 ''name'') (\<lambda>v.
     let s = setattr shg ''name'' (AJson v) s in
     ebind (subscript shg1 ''description'') (\<lambda>v.
     let s = setattr shg ''description'' (AJson v) s in
       add ''stakeholdergroups'' shg s)))"

definition dump_groups :: "config \<Rightarrow> server \<Rightarrow> state \<Rightarrow> failure + state" where
  "dump_groups cfg tackle1 s =
     ebind (fetch tackle1 (tackle1Url cfg @ ''/api/controls/stakeholder-group'') JNull ''GET'')
       (\<lambda>collection.
     ebind (iterate collection) (\<lambda>shg1s. for_each group_step shg1s s))"

definition nested_stakeholder_step :: "json \<Rightarrow> state \<times> nat list \<Rightarrow> failure + state \<times> nat list" where
  "nested_stakeholder_step sh1 st =
     (case st of (s, shs) \<Rightarrow>
        ebind (Tackle2Object sh1 s) (\<lambda>(sh, s).
        ebind (subscript sh1 ''displayName'') (\<lambda>v.
        let s = setattr sh ''name'' (AJson v) s in
        ebind (subscript sh1 ''email'') (\<lambda>v.
        let s = setattr sh ''email'' (AJson v) s in
          Inr (s, shs @ [sh])))))"

definition jobfunction_step :: "json \<Rightarrow> state \<Rightarrow> failure + state" where
  "jobfunction_step jf1 s =
     ebind (subscript jf1 ''stakeholders'') (\<lambda>ss.
     ebind (iterate ss) (\<lambda>sh1s.
     ebind (for_each nested_stakeholder_step sh1s (s, [])) (\<lambda>(s, shs).
     ebind (Tackle2Object jf1 s) (\<lambda>(jf, s).
     ebind (subscript jf1 ''role'') (\<lambda>role.
     let s = setattr jf ''name'' (AJson role) s;
         s = setattr jf ''stakeholders'' (ARefs shs) s in
     ebind (dict_has (destData s ''jobfunctions'') (AJson role)) (\<lambda>seeded.
       if \<not> seeded then add ''jobfunctions'' jf s else Inr s))))))"

definition dump_jobfunctions :: "config \<Rightarrow> server \<Rightarrow> state \<Rightarrow> failure + state" where
  "dump_jobfunctions cfg tackle1 s =
     ebind (fetch tackle1 (tackle1Url cfg @ ''/api/controls/job-function'') JNull ''GET'') (\<lambda>collection.
     ebind (iterate collection) (\<lambda>jf1s. for_each jobfunction_step jf1s s))"

definition businessservice_step :: "json \<Rightarrow> state \<Rightarrow> failure + state" where
  "businessservice_step bs1 s =
     ebind (Tackle2Object bs1 s) (\<lambda>(bs, s).
     ebind (subscript bs1 ''name'') (\<lambda>v.
     let s = setattr bs ''name'' (AJson v) s in
     ebind (subscript bs1 ''description'') (\<lambda>v.
     let s = setattr bs ''description'' (AJson v) s in
     ebind (subscript bs1 ''owner'') (\<lambda>v.
     let s = setattr bs ''owner'' (AJson v) s in
       add ''businessservices'' bs s))))"

definition dump_businessservices :: "config \<Rightarrow> server \<Rightarrow> state \<Rightarrow> failure + state" where
  "dump_businessservices cfg tackle1 s =
     ebind (fetch tackle1 (tackle1Url cfg @ ''/api/controls/business-service'') JNull ''GET'')
       (\<lambda>collection.
     ebind (iterate collection) (\<lambda>bs1s. for_each businessservice_step bs1s s))"

text \<open>\<^verbatim>\<open>dumpTackle1\<close> (lines 172-366): the sections in the order of the script.\<close>

definition dumpTackle1 :: "config \<Rightarrow> server \<Rightarrow> state \<Rightarrow> failure + state" where
  "dumpTackle1 cfg tackle1 s =
     ebind (dump_tagtypes cfg tackle1 s) (\<lambda>s.
     ebind (dump_applications cfg tackle1 s) (\<lambda>s.
     ebind (dump_dependencies cfg tackle1 s) (\<lambda>s.
     ebind (dump_assessments cfg tackle1 s) (\<lambda>s.
     ebind (dump_stakeholders cfg tackle1 s) (\<lambda>s.
     ebind (dump_groups cfg tackle1 s) (\<lambda>s.
     ebind (dump_jobfunctions cfg tackle1 s) (\<lambda>s.
       dump_businessservices cfg tackle1 s)))))))"

subsection \<open>Snapshot files\<close>

text \<open>
  \<^verbatim>\<open>json.dumps(jsonData, default=vars)\<close>: an object is written as the dictionary of
  its attributes, and so are the objects its attributes refer to. The first argument
  bounds the nesting of objects, as the recursion limit of the encoder does; an object
  that contains itself exceeds every bound. \<open>None\<close> is the exception of the encoder.
\<close>

function dumps :: "nat \<Rightarrow> obj list \<Rightarrow> aval \<Rightarrow> json option" where
  "dumps n h (AJson j) = Some j"
| "dumps 0 h (ARef a) = None"
| "dumps (Suc n) h (ARef a) =
     (if a < length h
      then map_option JDict (those (map (\<lambda>kv. map_option (Pair (fst kv)) (dumps n h (snd kv))) (h ! a)))
      else None)"
| "dumps n h (ARefs as) = map_option JList (those (map (\<lambda>a. dumps n h (ARef a)) as))"
  by pat_completeness auto

termination
  by (relation "measure (\<lambda>(n, h, v). 2 * n + (case v of ARefs as \<Rightarrow> 1 | _ \<Rightarrow> 0))")
     (auto split: aval.splits)

text \<open>
  The file system, as far as the script uses it: a file holds the JSON document that
  \<^verbatim>\<open>json.dumps\<close> wrote and \<^verbatim>\<open>json.load\<close> reads back. \<open>trace\<close> records the requests
  sent to the destination. \<open>types\<close> is the class attribute \<^verbatim>\<open>TYPES\<close>, a list that
  \<^verbatim>\<open>cleanTackle2\<close> reverses in place.
\<close>

record world =
  files :: "string \<rightharpoonup> json"
  trace :: "request list"
  types :: "string list"

definition init_world :: "(string \<rightharpoonup> json) \<Rightarrow> world" where
  "init_world fs = \<lparr>files = fs, trace = [], types = TYPES\<rparr>"

text \<open>\<^verbatim>\<open>os.path.join(a, b)\<close> on POSIX.\<close>

definition path_join :: "string \<Rightarrow> string \<Rightarrow> string" where
  "path_join a b =
     (if starts_with ''/'' b then b
      else if a = [] \<or> last a = CHR ''/'' then a @ b
      else a @ ''/'' @ b)"

definition loadDump :: "world \<Rightarrow> string \<Rightarrow> failure + json" where
  "loadDump w path = (case files w path of None \<Rightarrow> Inl (FileNotFound path) | Some d \<Rightarrow> Inr d)"

definition saveJSON :: "nat \<Rightarrow> obj list \<Rightarrow> string \<Rightarrow> nat list \<Rightarrow> world \<Rightarrow> failure + world" where
  "saveJSON limit h path jsonData w =
     (case dumps limit h (ARefs jsonData) of
        None \<Rightarrow> Inl EncodeError
      | Some d \<Rightarrow> Inr (w\<lparr>files := (files w)(path @ ''.json'' \<mapsto> d)\<rparr>))"

text \<open>\<^verbatim>\<open>store\<close> (lines 375-378).\<close>

definition store :: "nat \<Rightarrow> config \<Rightarrow> state \<Rightarrow> world \<Rightarrow> failure + world" where
  "store limit cfg s w =
     for_each (\<lambda>t w. saveJSON limit (heap s) (path_join (dataDir cfg) t) (data s t) w) (types w) w"


subsection \<open>Import, pre-import check and clean-up\<close>

text \<open>
  The destination changes as requests reach it, so its response may depend on the
  requests sent before. A failure leaves the world as it was when the failure occurred:
  these operations return the failure, if any, together with the world.
\<close>

type_synonym service = "request list \<Rightarrow> request \<Rightarrow> response"

definition apiJSON ::
  "service \<Rightarrow> string \<Rightarrow> json \<Rightarrow> string \<Rightarrow> bool \<Rightarrow> world \<Rightarrow> (failure + json) \<times> world" where
  "apiJSON svc url dat method ignoreErrors w =
     (api_result url (svc (trace w) (send method url dat)) ignoreErrors,
      w\<lparr>trace := trace w @ [send method url dat]\<rparr>)"

fun each_w :: "('a \<Rightarrow> world \<Rightarrow> failure option \<times> world) \<Rightarrow> 'a list \<Rightarrow> world \<Rightarrow> failure option \<times> world" where
  "each_w f [] w = (None, w)"
| "each_w f (x # xs) w = (case f x w of (Some e, w') \<Rightarrow> (Some e, w') | (None, w') \<Rightarrow> each_w f xs w')"

fun replace_dashes :: "string \<Rightarrow> string" where
  "replace_dashes (a # b # cs) =
     (if a = CHR ''-'' \<and> b = CHR ''-'' then CHR ''/'' # replace_dashes cs
      else a # replace_dashes (b # cs))"
| "replace_dashes cs = cs"

definition tackle2path :: "string \<Rightarrow> string" where
  "tackle2path ob =
     (if contains_str ''assessment'' ob then ''/pathfinder/'' @ replace_dashes ob
      else ''/hub/'' @ ob)"

text \<open>\<^verbatim>\<open>uploadTackle2\<close> (lines 380-388).\<close>

definition upload_object :: "service \<Rightarrow> config \<Rightarrow> string \<Rightarrow> json \<Rightarrow> world \<Rightarrow> failure option \<times> world" where
  "upload_object svc cfg t dictObj w =
     (if contains_str ''assessment'' t then (None, w)
      else case apiJSON svc (tackle2Url cfg @ tackle2path t) dictObj ''POST'' False w of
             (Inl e, w') \<Rightarrow> (Some e, w')
           | (Inr _, w') \<Rightarrow> (None, w'))"

definition upload_type :: "service \<Rightarrow> config \<Rightarrow> string \<Rightarrow> world \<Rightarrow> failure option \<times> world" where
  "upload_type svc cfg t w =
     (case ebind (loadDump w (path_join (dataDir cfg) (t @ ''.json''))) iterate of
        Inl e \<Rightarrow> (Some e, w)
      | Inr dictCollection \<Rightarrow> each_w (upload_object svc cfg t) dictCollection w)"

definition uploadTackle2 :: "service \<Rightarrow> config \<Rightarrow> world \<Rightarrow> failure option \<times> world" where
  "uploadTackle2 svc cfg w = each_w (upload_type svc cfg) (types w) w"

text \<open>
  \<^verbatim>\<open>preImportCheck\<close> (lines 390-401). The message of line 400 is built from
  \<^verbatim>\<open>importObj['id']\<close>, \<^verbatim>\<open>importObj['name']\<close> and \<^verbatim>\<open>destObj['name']\<close>, evaluated in
  that order before the text is formatted and printed.
\<close>

definition check_pair :: "string \<Rightarrow> json \<Rightarrow> json \<Rightarrow> unit \<Rightarrow> failure + unit" where
  "check_pair t importObj destObj u =
     ebind (subscript importObj ''id'') (\<lambda>i.
     ebind (subscript destObj ''id'') (\<lambda>j.
       if i = j then
         ebind (subscript importObj ''id'') (\<lambda>i.
         ebind (subscript importObj ''name'') (\<lambda>n.
         ebind (subscript destObj ''name'') (\<lambda>m.
         ebind (format_d (AJson i)) (\<lambda>_.
           Inl (ResourceExists t i n m)))))
       else Inr ()))"

definition check_object :: "string \<Rightarrow> json \<Rightarrow> json \<Rightarrow> unit \<Rightarrow> failure + unit" where
  "check_object t destCollection importObj u =
     ebind (iterate destCollection) (\<lambda>destObjs. for_each (check_pair t importObj) destObjs ())"

definition check_type :: "service \<Rightarrow> config \<Rightarrow> string \<Rightarrow> world \<Rightarrow> failure option \<times> world" where
  "check_type svc cfg t w =
     (if contains_str ''assessment'' t then (None, w)
      else case apiJSON svc (tackle2Url cfg @ tackle2path t) JNull ''GET'' False w of
             (Inl e, w') \<Rightarrow> (Some e, w')
           | (Inr destCollection, w') \<Rightarrow>
               (case ebind (loadDump w' (path_join (dataDir cfg) (t @ ''.json''))) (\<lambda>localCollection.
                     ebind (iterate localCollection) (\<lambda>importObjs.
                       for_each (check_object t destCollection) importObjs ())) of
                  Inl e \<Rightarrow> (Some e, w')
                | Inr _ \<Rightarrow> (None, w')))"

definition preImportCheck :: "service \<Rightarrow> config \<Rightarrow> world \<Rightarrow> failure option \<times> world" where
  "preImportCheck svc cfg w = each_w (check_type svc cfg) (types w) w"

text \<open>\<^verbatim>\<open>cleanTackle2\<close> (lines 403-416).\<close>

definition delete_object :: "service \<Rightarrow> config \<Rightarrow> string \<Rightarrow> json \<Rightarrow> world \<Rightarrow> failure option \<times> world" where
  "delete_object svc cfg t dictObj w =
     (if contains_str ''assessment'' t then (None, w)
      else case ebind (subscript dictObj ''id'') (\<lambda>_.
                ebind (subscript dictObj ''id'') (\<lambda>i. format_d (AJson i))) of
             Inl e \<Rightarrow> (Some e, w)
           | Inr n \<Rightarrow>
               (case apiJSON svc (tackle2Url cfg @ ''/hub/'' @ t @ ''/'' @ n) JNull ''DELETE'' True w of
                  (Inl e, w') \<Rightarrow> (Some e, w')
                | (Inr _, w') \<Rightarrow> (None, w')))"

definition delete_type :: "service \<Rightarrow> config \<Rightarrow> string \<Rightarrow> world \<Rightarrow> failure option \<times> world" where
  "delete_type svc cfg t w =
     (case ebind (loadDump w (path_join (dataDir cfg) (t @ ''.json''))) iterate of
        Inl e \<Rightarrow> (Some e, w)
      | Inr dictCollection \<Rightarrow> each_w (delete_object svc cfg t) dictCollection w)"

definition cleanTackle2 :: "service \<Rightarrow> config \<Rightarrow> world \<Rightarrow> failure option \<times> world" where
  "cleanTackle2 svc cfg w =
     (let w = w\<lparr>types := rev (types w)\<rparr> in each_w (delete_type svc cfg) (types w) w)"

subsection \<open>The actions of the script (lines 431-478)\<close>

text \<open>
  The script runs the actions named on the command line in the order export, import,
  clean, each at most once. The tokens are obtained before each action and sent
  with every request; the servers here stand for the systems as the token lets the
  script see them.
\<close>

definition export_action ::
  "nat \<Rightarrow> config \<Rightarrow> bool \<Rightarrow> server \<Rightarrow> server \<Rightarrow> world \<Rightarrow> failure + world" where
  "export_action limit cfg skipDestCheck tackle1 tackle2 w =
     ebind (if \<not> skipDestCheck then loadTackle2Seeds cfg tackle2 init_state else Inr init_state) (\<lambda>s.
     ebind (dumpTackle1 cfg tackle1 s) (\<lambda>s.
       store limit cfg s w))"

definition import_action :: "service \<Rightarrow> config \<Rightarrow> bool \<Rightarrow> world \<Rightarrow> failure option \<times> world" where
  "import_action svc cfg skipDestCheck w =
     (if \<not> skipDestCheck then
        (case preImportCheck svc cfg w of
           (Some e, w') \<Rightarrow> (Some e, w')
         | (None, w') \<Rightarrow> uploadTackle2 svc cfg w')
      else uploadTackle2 svc cfg w)"

definition clean_action :: "service \<Rightarrow> config \<Rightarrow> world \<Rightarrow> failure option \<times> world" where
  "clean_action svc cfg w = cleanTackle2 svc cfg w"

subsection \<open>The order of \<^verbatim>\<open>TYPES\<close> and the references between entities\<close>





subsection \<open>Example inputs\<close>

text \<open>A payload record with the three common fields and the given further fields.\<close>

definition record_of :: "int \<Rightarrow> (string \<times> json) list \<Rightarrow> json" where
  "record_of i kvs =
     JDict ([(''id'', JInt i), (''createUser'', JStr ''admin''), (''updateUser'', JStr ''admin'')] @ kvs)"

text \<open>A store with two objects that carry the same identifier, and no collections yet.\<close>

definition two_objects :: state where
  "two_objects =
     \<lparr>heap = [[(''id'', AJson (JInt 7)), (''name'', AJson (JStr ''first''))],
              [(''id'', AJson (JInt 7)), (''name'', AJson (JStr ''second''))]],
      data = (\<lambda>t. []), destData = (\<lambda>t. Map.empty)\<rparr>"

definition risk_record :: json where
  "risk_record =
     JDict [(''assessmentId'', JInt 1), (''applicationId'', JInt 5), (''risk'', JStr ''RED'')]"

definition confidence_record :: json where
  "confidence_record =
     JDict [(''assessmentId'', JInt 1), (''applicationId'', JInt 5), (''confidence'', JInt 80)]"

text \<open>The state after the first risk record of a run has been extracted.\<close>

definition one_risk :: state where
  "one_risk =
     \<lparr>heap = [[(''assessmentId'', AJson (JInt 1)), (''applicationId'', AJson (JInt 5)),
               (''risk'', AJson (JStr ''RED''))]],
      data = (\<lambda>t. [])(''assessments--assessment-risk'' := [0]),
      destData = (\<lambda>t. Map.empty)\<rparr>"

definition example_config :: config where
  "example_config =
     \<lparr>dataDir = ''./tackle-data'', tackle1Url = ''https://tackle1'', tackle2Url = ''https://tackle2''\<rparr>"

definition ok_response :: "json \<Rightarrow> response" where
  "ok_response j = \<lparr>resp_ok = True, resp_status = 200, resp_text = JsonText j\<rparr>"

text \<open>A stakeholder of the source system with a job function.\<close>

definition stakeholder_with_role :: json where
  "stakeholder_with_role =
     record_of 1 [(''displayName'', JStr ''Ann''), (''email'', JStr ''ann@example.com''),
                  (''stakeholderGroups'', JList []),
                  (''jobFunction'',
                   record_of 5 [(''role'', JStr ''Architect''), (''name'', JStr ''Architect'')])]"

text \<open>A state whose destination already has a job function of that name (object 0).\<close>

definition seeded_role :: state where
  "seeded_role =
     \<lparr>heap = [[(''id'', AJson (JInt 3)), (''createUser'', AJson (JStr ''admin'')),
               (''updateUser'', AJson (JStr ''admin'')), (''name'', AJson (JStr ''Architect''))]],
      data = (\<lambda>t. []),
      destData = (\<lambda>t. Map.empty)(''jobfunctions'' := [JStr ''Architect'' \<mapsto> 0])\<rparr>"

text \<open>
  A dependency as the export writes it, a snapshot directory that holds only this
  dependency, and a destination that already has a dependency with the identifier 7.
\<close>

definition dependency_entity :: json where
  "dependency_entity =
     record_of 7 [(''to'', JDict [(''id'', JInt 20), (''name'', JStr ''B'')]),
                  (''from'', JDict [(''id'', JInt 10), (''name'', JStr ''A'')])]"

definition dependency_snapshot :: "string \<rightharpoonup> json" where
  "dependency_snapshot path =
     (if path = ''./tackle-data/dependencies.json'' then Some (JList [dependency_entity])
      else Some (JList []))"

definition dependency_destination :: service where
  "dependency_destination history r =
     (if r = Get ''https://tackle2/hub/dependencies'' then ok_response (JList [dependency_entity])
      else ok_response (JList []))"

text \<open>
  A snapshot directory with two applications and one tag; a destination behind a
  gateway that answers every request with status 503 and a page that is not JSON; and
  a destination that answers every request with status 404 and a JSON error.
\<close>

definition two_applications :: "string \<rightharpoonup> json" where
  "two_applications path =
     (if path = ''./tackle-data/applications.json''
      then Some (JList [record_of 1 [(''name'', JStr ''A'')], record_of 2 [(''name'', JStr ''B'')]])
      else if path = ''./tackle-data/tags.json''
      then Some (JList [record_of 3 [(''name'', JStr ''T'')]])
      else Some (JList []))"

definition gateway_errors :: service where
  "gateway_errors history r = \<lparr>resp_ok = False, resp_status = 503, resp_text = OtherText\<rparr>"

definition not_found_json :: service where
  "not_found_json history r =
     \<lparr>resp_ok = False, resp_status = 404,
      resp_text = JsonText (JDict [(''error'', JStr ''not found'')])\<rparr>"



section \<open>Properties\<close>

lemma ebind_simps [simp]:
  "ebind (Inl e) f = Inl e"
  "ebind (Inr x) f = f x"
  by (simp_all add: ebind_def)

lemma ebind_eq_Inr: "ebind m f = Inr y \<longleftrightarrow> (\<exists>x. m = Inr x \<and> f x = Inr y)"
  by (cases m) simp_all

subsection \<open>\<^verbatim>\<open>add\<close>\<close>

lemma add_present_found:
  assumes "\<forall>e \<in> set es. hasattr s e ''id''" and "hasattr s item ''id''"
    and "\<exists>e \<in> set es. getattr s e ''id'' = getattr s item ''id''"
  shows "add_present s item es = Inr True"
  using assms
proof (induction es)
  case Nil
  then show ?case by simp
next
  case (Cons e es)
  then show ?case
    by (auto simp: hasattr_def getattr_def split: option.splits)
qed

lemma add_present_no_id:
  "\<not> hasattr s item ''id'' \<Longrightarrow> add_present s item es = Inr False"
  by (induction es) simp_all

lemma add_no_id:
  "\<not> hasattr s item ''id'' \<Longrightarrow>
     add t item s = Inr (s\<lparr>data := (data s)(t := data s t @ [item])\<rparr>)"
  by (simp add: add_def add_present_no_id)

text \<open>
  C6. In a collection whose items all carry an identifier, adding an item whose
  identifier is already present changes nothing; starting from an empty collection,
  adding an item and then an item with the same identifier leaves exactly the first one.
\<close>

theorem add_idempotent:
  assumes "\<forall>e \<in> set (data s t). hasattr s e ''id''" and "hasattr s item ''id''"
  shows "((\<exists>e \<in> set (data s t). getattr s e ''id'' = getattr s item ''id'') \<longrightarrow>
            add t item s = Inr s)
       \<and> (data s t = [] \<and> hasattr s item' ''id'' \<and> getattr s item' ''id'' = getattr s item ''id'' \<longrightarrow>
            (\<exists>s1. add t item s = Inr s1 \<and> add t item' s1 = Inr s1 \<and> data s1 t = [item]))"
proof (intro conjI impI)
  assume "\<exists>e \<in> set (data s t). getattr s e ''id'' = getattr s item ''id''"
  then show "add t item s = Inr s"
    using assms by (simp add: add_def add_present_found)
next
  assume h: "data s t = [] \<and> hasattr s item' ''id'' \<and> getattr s item' ''id'' = getattr s item ''id''"
  let ?s1 = "s\<lparr>data := (data s)(t := [item])\<rparr>"
  have 1: "add t item s = Inr ?s1" using h by (simp add: add_def)
  have "add_present ?s1 item' [item] = Inr True"
    using h assms(2) by (auto simp: hasattr_def getattr_def split: option.splits)
  then have 2: "add t item' ?s1 = Inr ?s1" by (simp add: add_def)
  show "\<exists>s1. add t item s = Inr s1 \<and> add t item' s1 = Inr s1 \<and> data s1 t = [item]"
    using 1 2 by auto
qed

theorem add_idempotent_witness:
  "add ''tags'' 1 (two_objects\<lparr>data := (\<lambda>t. [0])\<rparr>) = Inr (two_objects\<lparr>data := (\<lambda>t. [0])\<rparr>)
   \<and> (\<exists>s1. add ''tags'' 0 two_objects = Inr s1 \<and> add ''tags'' 1 s1 = Inr s1
            \<and> data s1 ''tags'' = [0])"
  using add_idempotent [of "two_objects\<lparr>data := (\<lambda>t. [0])\<rparr>" "''tags''" 1]
    add_idempotent [of two_objects "''tags''" 0 1]
  by (simp add: two_objects_def hasattr_def getattr_def)

lemma new_object_empty:
  "Tackle2Object (JDict []) s = Inr (length (heap s), s\<lparr>heap := heap s @ [[]]\<rparr>)"
  by (simp add: Tackle2Object_def alloc_def)

lemma setattr_last:
  "setattr (length h) k v (s\<lparr>heap := h @ [ob]\<rparr>) = s\<lparr>heap := h @ [AList.update k v ob]\<rparr>"
  by (simp add: setattr_def)

lemma hasattr_last:
  "hasattr (s\<lparr>heap := h @ [ob]\<rparr>) (length h) k = (map_of ob k \<noteq> None)"
  by (simp add: hasattr_def)

lemma risk_step_appends:
  assumes "risk_step assmr1 s = Inr s'"
  shows "data s' ''assessments--assessment-risk''
           = data s ''assessments--assessment-risk'' @ [length (heap s)]
         \<and> \<not> hasattr s' (length (heap s)) ''id''"
  using assms
  by (auto simp: risk_step_def new_object_empty setattr_last hasattr_last add_no_id
        ebind_eq_Inr Let_def hasattr_def)

lemma confidence_step_appends:
  assumes "confidence_step conf1 s = Inr s'"
  shows "data s' ''assessments--confidence''
           = data s ''assessments--confidence'' @ [length (heap s)]
         \<and> \<not> hasattr s' (length (heap s)) ''id''"
  using assms
  by (auto simp: confidence_step_def new_object_empty setattr_last hasattr_last add_no_id
        ebind_eq_Inr Let_def hasattr_def)

text \<open>
  C10. An item without an \<^verbatim>\<open>id\<close> attribute is appended by \<^verbatim>\<open>add\<close> whatever the
  collection holds. The records of assessment risk and of confidence are built without
  that attribute, so each one met is appended as a new last element.
\<close>

theorem add_without_id_appends:
  "(\<not> hasattr s item ''id'' \<longrightarrow>
      add t item s = Inr (s\<lparr>data := (data s)(t := data s t @ [item])\<rparr>))
   \<and> (risk_step assmr1 s = Inr s1 \<longrightarrow>
        \<not> hasattr s1 (length (heap s)) ''id''
        \<and> data s1 ''assessments--assessment-risk''
            = data s ''assessments--assessment-risk'' @ [length (heap s)])
   \<and> (confidence_step conf1 s = Inr s2 \<longrightarrow>
        \<not> hasattr s2 (length (heap s)) ''id''
        \<and> data s2 ''assessments--confidence''
            = data s ''assessments--confidence'' @ [length (heap s)])"
  using add_no_id risk_step_appends confidence_step_appends by blast

lemma risk_first: "risk_step risk_record init_state = Inr one_risk"
  by (simp add: risk_record_def init_state_def risk_step_def Tackle2Object_def alloc_def
        setattr_def add_def hasattr_def Let_def one_risk_def)

lemma risk_second: "\<exists>s. risk_step risk_record one_risk = Inr s"
  by (simp add: risk_record_def risk_step_def Tackle2Object_def alloc_def
        setattr_def add_def hasattr_def Let_def one_risk_def)

lemma confidence_second: "\<exists>s. confidence_step confidence_record one_risk = Inr s"
  by (simp add: confidence_record_def confidence_step_def Tackle2Object_def alloc_def
        setattr_def add_def hasattr_def Let_def one_risk_def)

theorem add_without_id_appends_witness:
  "add ''assessments--assessment-risk'' 0 one_risk
     = Inr (one_risk\<lparr>data := (data one_risk)(''assessments--assessment-risk'' := [0, 0])\<rparr>)
   \<and> (\<exists>s1. risk_step risk_record one_risk = Inr s1
          \<and> data s1 ''assessments--assessment-risk'' = [0, 1])
   \<and> (\<exists>s2. confidence_step confidence_record one_risk = Inr s2
          \<and> data s2 ''assessments--confidence'' = [1])"
proof -
  obtain s1 where 1: "risk_step risk_record one_risk = Inr s1" using risk_second by blast
  obtain s2 where 2: "confidence_step confidence_record one_risk = Inr s2"
    using confidence_second by blast
  have 3: "\<not> hasattr one_risk 0 ''id''" by (simp add: one_risk_def hasattr_def)
  show ?thesis
    using add_without_id_appends [of one_risk 0 "''assessments--assessment-risk''" risk_record s1
        confidence_record s2] 1 2 3
    by (simp add: one_risk_def)
qed

subsection \<open>Stakeholders and their job function\<close>

text \<open>
  C5. The script does not reach the assignment of \<^verbatim>\<open>sh.jobFunction\<close>: for every
  stakeholder payload whose \<^verbatim>\<open>jobFunction\<close> is truthy, the step of the stakeholder
  loop raises, whether or not the destination has a job function of that name.
\<close>

theorem stakeholder_jobfunction_raises:
  assumes "subscript sh1 ''jobFunction'' = Inr jf1" and "truthy jf1"
  shows "\<exists>e. stakeholder_step sh1 s = Inl e"
proof (cases "stakeholder_step sh1 s")
  case (Inl e)
  then show ?thesis by blast
next
  case (Inr s')
  then have False
    using assms
    by (auto simp: stakeholder_step_def ebind_eq_Inr object_subscript_def Let_def
          split: if_splits prod.splits)
  then show ?thesis ..
qed

theorem stakeholder_jobfunction_raises_witness:
  "stakeholder_step stakeholder_with_role init_state = Inl TypeError
   \<and> stakeholder_step stakeholder_with_role seeded_role = Inl TypeError"
  using stakeholder_jobfunction_raises [of stakeholder_with_role _ init_state]
  by (simp add: stakeholder_with_role_def record_of_def init_state_def seeded_role_def
        stakeholder_step_def object_subscript_def Tackle2Object_def alloc_def setattr_def Let_def)

subsection \<open>Pre-import check\<close>

text \<open>
  C3. The identifier 7 of the dependency in the snapshot is the identifier of a
  dependency of the destination. The check ends the import before any POST, but with
  the KeyError raised while the message of line 400 is built (a dependency has no
  \<^verbatim>\<open>name\<close>), not with the collision message.
\<close>

theorem preflight_collision_without_name:
  "import_action dependency_destination example_config False (init_world dependency_snapshot)
     = (Some (KeyError ''name''),
        \<lparr>files = dependency_snapshot,
         trace = [Get ''https://tackle2/hub/tags'', Get ''https://tackle2/hub/tagtypes'',
                  Get ''https://tackle2/hub/jobfunctions'',
                  Get ''https://tackle2/hub/stakeholdergroups'',
                  Get ''https://tackle2/hub/stakeholders'',
                  Get ''https://tackle2/hub/businessservices'',
                  Get ''https://tackle2/hub/applications'', Get ''https://tackle2/hub/proxies'',
                  Get ''https://tackle2/hub/dependencies''],
         types = TYPES\<rparr>)"
  by (simp add: import_action_def preImportCheck_def init_world_def TYPES_def check_type_def
        apiJSON_def api_result_def send_def tackle2path_def example_config_def
        dependency_destination_def ok_response_def loadDump_def path_join_def
        dependency_snapshot_def check_object_def check_pair_def dependency_entity_def
        record_of_def)

subsection \<open>Clean-up\<close>

lemma clean_traverses_reverse:
  "cleanTackle2 svc cfg w
     = each_w (delete_type svc cfg) (rev (types w)) (w\<lparr>types := rev (types w)\<rparr>)"
  by (simp add: cleanTackle2_def Let_def)

lemma int_text_examples:
  "int_text 1 = ''1''" "int_text 2 = ''2''" "int_text 3 = ''3''"
  by code_simp+

text \<open>
  C8. Behind a gateway that answers a DELETE with an error page, the first delete
  ends the clean-up with the exception of \<^verbatim>\<open>json.loads\<close>: the second application and
  the tag of the snapshot are never deleted.
\<close>

theorem clean_stops_at_undecodable_error:
  "cleanTackle2 gateway_errors example_config (init_world two_applications)
     = (Some JSONDecodeError,
        \<lparr>files = two_applications, trace = [Delete ''https://tackle2/hub/applications/1''],
         types = rev TYPES\<rparr>)"
  by (simp add: cleanTackle2_def init_world_def TYPES_def delete_type_def delete_object_def
        apiJSON_def api_result_def send_def example_config_def gateway_errors_def loadDump_def
        path_join_def two_applications_def record_of_def int_text_examples Let_def)

lemma clean_continues_after_json_error:
  "cleanTackle2 not_found_json example_config (init_world two_applications)
     = (None,
        \<lparr>files = two_applications,
         trace = [Delete ''https://tackle2/hub/applications/1'',
                  Delete ''https://tackle2/hub/applications/2'',
                  Delete ''https://tackle2/hub/tags/3''],
         types = rev TYPES\<rparr>)"
  by (simp add: cleanTackle2_def init_world_def TYPES_def delete_type_def delete_object_def
        apiJSON_def api_result_def send_def example_config_def not_found_json_def loadDump_def
        path_join_def two_applications_def record_of_def int_text_examples Let_def)

subsection \<open>References and the order of \<^verbatim>\<open>TYPES\<close>\<close>




subsection \<open>Dependencies and snapshot files\<close>

lemma Tackle2Object_Inr:
  "Tackle2Object j s = Inr (a, s') \<longleftrightarrow>
     a = length (heap s) \<and>
     (if truthy j then
        (\<exists>i cu uu. subscript j ''id'' = Inr i \<and> subscript j ''createUser'' = Inr cu
           \<and> subscript j ''updateUser'' = Inr uu
           \<and> s' = s\<lparr>heap := heap s @ [[(''id'', AJson i), (''createUser'', AJson cu),
                                         (''updateUser'', AJson uu)]]\<rparr>)
      else s' = s\<lparr>heap := heap s @ [[]]\<rparr>)"
  by (auto simp: Tackle2Object_def alloc_def ebind_eq_Inr)

lemma add_Inr:
  "add t a s = Inr s' \<Longrightarrow> s' = s \<or> s' = s\<lparr>data := (data s)(t := data s t @ [a])\<rparr>"
  by (auto simp: add_def ebind_eq_Inr split: if_splits)

lemma subscript_truthy: "subscript j k = Inr v \<Longrightarrow> truthy j"
  by (cases j) (auto split: option.splits)

lemma dependency_step_result:
  assumes "dependency_step dep1 s = Inr s'"
  shows "\<exists>i cu uu t f to_id to_name from_id from_name.
           subscript dep1 ''to'' = Inr t \<and> subscript t ''id'' = Inr to_id
         \<and> subscript t ''name'' = Inr to_name
         \<and> subscript dep1 ''from'' = Inr f \<and> subscript f ''id'' = Inr from_id
         \<and> subscript f ''name'' = Inr from_name
         \<and> heap s' = heap s @ [[(''id'', AJson i), (''createUser'', AJson cu), (''updateUser'', AJson uu),
              (''to'', AJson (JDict [(''id'', to_id), (''name'', to_name)])),
              (''from'', AJson (JDict [(''id'', from_id), (''name'', from_name)]))]]"
proof -
  from assms obtain t where t: "subscript dep1 ''to'' = Inr t"
    by (auto simp: dependency_step_def ebind_eq_Inr Let_def)
  then have tr: "truthy dep1" by (rule subscript_truthy)
  show ?thesis
    using assms tr
    by (auto simp: dependency_step_def ebind_eq_Inr Let_def Tackle2Object_Inr setattr_last
          dest!: add_Inr)
qed

lemma those_map_Some: "those (map Some xs) = Some xs"
  by (induction xs) simp_all

lemma those_eq_Some:
  "those xs = Some ys \<longleftrightarrow> xs = map Some ys"
proof (induction xs arbitrary: ys)
  case Nil
  then show ?case by auto
next
  case (Cons x xs)
  then show ?case
    by (cases x) (auto split: option.splits)
qed

lemma those_map_nth:
  assumes "those (map f xs) = Some ys"
  shows "length ys = length xs \<and> (\<forall>k < length xs. f (xs ! k) = Some (ys ! k))"
proof -
  from assms have eq: "map f xs = map Some ys" by (simp add: those_eq_Some)
  then have len: "length ys = length xs" by (metis length_map)
  moreover have "\<forall>k < length xs. f (xs ! k) = Some (ys ! k)"
  proof (intro allI impI)
    fix k assume k: "k < length xs"
    then have "map f xs ! k = map Some ys ! k" using eq by simp
    then show "f (xs ! k) = Some (ys ! k)" using k len by simp
  qed
  ultimately show ?thesis by blast
qed

lemma dumps_plain_object:
  assumes "a < length h" and "h ! a = map (\<lambda>kv. (fst kv, AJson (snd kv))) kvs"
  shows "dumps (Suc n) h (ARef a) = Some (JDict kvs)"
proof -
  have "map (\<lambda>kv. map_option (Pair (fst kv)) (dumps n h (snd kv))) (h ! a) = map Some kvs"
    using assms(2) by (simp add: comp_def)
  then show ?thesis using assms(1) by (simp add: those_map_Some)
qed

lemma dumps_collection:
  assumes "dumps limit h (ARefs coll) = Some d"
  shows "\<exists>docs. d = JList docs \<and> length docs = length coll
          \<and> (\<forall>k < length coll. dumps limit h (ARef (coll ! k)) = Some (docs ! k))"
proof -
  from assms obtain docs where d: "d = JList docs"
      and t: "those (map (\<lambda>a. dumps limit h (ARef a)) coll) = Some docs"
    by auto
  show ?thesis using d those_map_nth [OF t] by blast
qed

lemma save_then_load:
  assumes "saveJSON limit h path coll w = Inr w'"
  shows "\<exists>d. dumps limit h (ARefs coll) = Some d \<and> loadDump w' (path @ ''.json'') = Inr d"
  using assms by (auto simp: saveJSON_def loadDump_def split: option.splits)

text \<open>
  C9. The object built for a dependency holds, as \<^verbatim>\<open>to\<close> and \<^verbatim>\<open>from\<close>, the identifier
  and the name found in the payload, unchanged. Writing a collection that contains the
  object and reading the file back gives a document whose element has these two
  fields; a collection with this object alone can be written with any positive limit.
\<close>

theorem dependency_copied_verbatim:
  assumes "dependency_step dep1 s = Inr s'"
  shows "\<exists>t f to_id to_name from_id from_name.
           subscript dep1 ''to'' = Inr t \<and> subscript t ''id'' = Inr to_id
         \<and> subscript t ''name'' = Inr to_name
         \<and> subscript dep1 ''from'' = Inr f \<and> subscript f ''id'' = Inr from_id
         \<and> subscript f ''name'' = Inr from_name
         \<and> getattr s' (length (heap s)) ''to''
             = Inr (AJson (JDict [(''id'', to_id), (''name'', to_name)]))
         \<and> getattr s' (length (heap s)) ''from''
             = Inr (AJson (JDict [(''id'', from_id), (''name'', from_name)]))
         \<and> (\<forall>limit path w. 0 < limit \<longrightarrow>
               (\<exists>w'. saveJSON limit (heap s') path [length (heap s)] w = Inr w'))
         \<and> (\<forall>limit h path coll w w' k.
               saveJSON limit h path coll w = Inr w' \<and> k < length coll
               \<and> coll ! k = length (heap s) \<and> length (heap s) < length h
               \<and> h ! length (heap s) = heap s' ! length (heap s) \<longrightarrow>
               (\<exists>docs. loadDump w' (path @ ''.json'') = Inr (JList docs)
                  \<and> length docs = length coll
                  \<and> subscript (docs ! k) ''to''
                      = Inr (JDict [(''id'', to_id), (''name'', to_name)])
                  \<and> subscript (docs ! k) ''from''
                      = Inr (JDict [(''id'', from_id), (''name'', from_name)])))"
proof -
  let ?a = "length (heap s)"
  from dependency_step_result [OF assms]
  obtain i cu uu t f to_id to_name from_id from_name where
    src: "subscript dep1 ''to'' = Inr t" "subscript t ''id'' = Inr to_id"
      "subscript t ''name'' = Inr to_name" "subscript dep1 ''from'' = Inr f"
      "subscript f ''id'' = Inr from_id" "subscript f ''name'' = Inr from_name"
    and hp: "heap s' = heap s @ [[(''id'', AJson i), (''createUser'', AJson cu), (''updateUser'', AJson uu),
              (''to'', AJson (JDict [(''id'', to_id), (''name'', to_name)])),
              (''from'', AJson (JDict [(''id'', from_id), (''name'', from_name)]))]]"
    by blast
  let ?kvs = "[(''id'', i), (''createUser'', cu), (''updateUser'', uu),
              (''to'', JDict [(''id'', to_id), (''name'', to_name)]),
              (''from'', JDict [(''id'', from_id), (''name'', from_name)])]"
  have ob: "heap s' ! ?a = map (\<lambda>kv. (fst kv, AJson (snd kv))) ?kvs"
    using hp by simp
  have attrs: "getattr s' ?a ''to'' = Inr (AJson (JDict [(''id'', to_id), (''name'', to_name)]))"
    "getattr s' ?a ''from'' = Inr (AJson (JDict [(''id'', from_id), (''name'', from_name)]))"
    using hp by (simp_all add: getattr_def)
  have fields: "subscript (JDict ?kvs) ''to'' = Inr (JDict [(''id'', to_id), (''name'', to_name)])"
    "subscript (JDict ?kvs) ''from'' = Inr (JDict [(''id'', from_id), (''name'', from_name)])"
    by simp_all
  have save: "\<exists>w'. saveJSON limit (heap s') path [?a] w = Inr w'" if "0 < limit" for limit path w
  proof -
    from that obtain n where n: "limit = Suc n" by (cases limit) auto
    have "dumps (Suc n) (heap s') (ARef ?a) = Some (JDict ?kvs)"
      using dumps_plain_object [OF _ ob] hp by simp
    then show ?thesis using n by (simp add: saveJSON_def)
  qed
  have load: "\<exists>docs. loadDump w' (path @ ''.json'') = Inr (JList docs)
                  \<and> length docs = length coll
                  \<and> subscript (docs ! k) ''to''
                      = Inr (JDict [(''id'', to_id), (''name'', to_name)])
                  \<and> subscript (docs ! k) ''from''
                      = Inr (JDict [(''id'', from_id), (''name'', from_name)])"
    if h: "saveJSON limit h path coll w = Inr w'" "k < length coll" "coll ! k = ?a"
      "?a < length h" "h ! ?a = heap s' ! ?a"
    for limit h path coll w w' k
  proof -
    from save_then_load [OF h(1)] obtain d where
      d: "dumps limit h (ARefs coll) = Some d" "loadDump w' (path @ ''.json'') = Inr d" by blast
    from dumps_collection [OF d(1)] obtain docs where
      nd: "d = JList docs" "length docs = length coll"
        "\<forall>k < length coll. dumps limit h (ARef (coll ! k)) = Some (docs ! k)" by blast
    then have dk: "dumps limit h (ARef ?a) = Some (docs ! k)" using h(2,3) by auto
    then obtain m where m: "limit = Suc m" by (cases limit) auto
    have "dumps (Suc m) h (ARef ?a) = Some (JDict ?kvs)"
      using dumps_plain_object [OF h(4)] ob h(5) by simp
    then have "docs ! k = JDict ?kvs" using dk m by simp
    then show ?thesis using d(2) nd(1,2) fields by simp
  qed
  show ?thesis using src attrs save load by blast
qed

theorem dependency_copied_verbatim_witness:
  "\<exists>s' w' doc. dependency_step dependency_entity init_state = Inr s'
     \<and> getattr s' 0 ''to'' = Inr (AJson (JDict [(''id'', JInt 20), (''name'', JStr ''B'')]))
     \<and> getattr s' 0 ''from'' = Inr (AJson (JDict [(''id'', JInt 10), (''name'', JStr ''A'')]))
     \<and> saveJSON 1 (heap s') ''./tackle-data/dependencies'' [0] (init_world Map.empty) = Inr w'
     \<and> loadDump w' ''./tackle-data/dependencies.json'' = Inr (JList [doc])
     \<and> subscript doc ''to'' = Inr (JDict [(''id'', JInt 20), (''name'', JStr ''B'')])
     \<and> subscript doc ''from'' = Inr (JDict [(''id'', JInt 10), (''name'', JStr ''A'')])"
proof -
  obtain s' where s: "dependency_step dependency_entity init_state = Inr s'"
    by (simp add: dependency_step_def dependency_entity_def record_of_def init_state_def
          Tackle2Object_def alloc_def setattr_def add_def hasattr_def Let_def)
  have h0: "length (heap init_state) = 0" by (simp add: init_state_def)
  from dependency_copied_verbatim [OF s, unfolded h0]
  obtain t f to_id to_name from_id from_name where
    src: "subscript dependency_entity ''to'' = Inr t" "subscript t ''id'' = Inr to_id"
      "subscript t ''name'' = Inr to_name" "subscript dependency_entity ''from'' = Inr f"
      "subscript f ''id'' = Inr from_id" "subscript f ''name'' = Inr from_name"
    and attrs: "getattr s' 0 ''to'' = Inr (AJson (JDict [(''id'', to_id), (''name'', to_name)]))"
      "getattr s' 0 ''from'' = Inr (AJson (JDict [(''id'', from_id), (''name'', from_name)]))"
    and save: "\<forall>limit path w. 0 < limit \<longrightarrow>
               (\<exists>w'. saveJSON limit (heap s') path [0] w = Inr w')"
    and load: "\<forall>limit h path coll w w' k.
               saveJSON limit h path coll w = Inr w' \<and> k < length coll
               \<and> coll ! k = 0 \<and> 0 < length h \<and> h ! 0 = heap s' ! 0 \<longrightarrow>
               (\<exists>docs. loadDump w' (path @ ''.json'') = Inr (JList docs)
                  \<and> length docs = length coll
                  \<and> subscript (docs ! k) ''to''
                      = Inr (JDict [(''id'', to_id), (''name'', to_name)])
                  \<and> subscript (docs ! k) ''from''
                      = Inr (JDict [(''id'', from_id), (''name'', from_name)]))"
    by blast
  have vals: "to_id = JInt 20" "to_name = JStr ''B''" "from_id = JInt 10" "from_name = JStr ''A''"
    using src by (auto simp: dependency_entity_def record_of_def)
  obtain w' where w': "saveJSON 1 (heap s') ''./tackle-data/dependencies'' [0]
                         (init_world Map.empty) = Inr w'"
    using save [rule_format, of 1 "''./tackle-data/dependencies''" "init_world Map.empty"]
    by auto
  have len: "0 < length (heap s')"
    using w' by (auto simp: saveJSON_def split: option.splits if_splits)
  from load [rule_format, of 1 "heap s'" "''./tackle-data/dependencies''" "[0]"
      "init_world Map.empty" w' 0] w' len
  obtain docs where
    docs: "loadDump w' (''./tackle-data/dependencies'' @ ''.json'') = Inr (JList docs)"
      "length docs = 1"
      "subscript (docs ! 0) ''to'' = Inr (JDict [(''id'', to_id), (''name'', to_name)])"
      "subscript (docs ! 0) ''from'' = Inr (JDict [(''id'', from_id), (''name'', from_name)])"
    by auto
  then obtain doc where doc: "docs = [doc]" by (cases docs) auto
  show ?thesis using s attrs w' docs doc vals by auto
qed












end
